theory Spec2Isabelle
  imports Complex_Main
begin

section \<open>Values and enumerations of \<open>app/models.py\<close>\<close>

text \<open>
  The module is purely declarative: two enumerations, six table models and a set of
  transfer shapes, each a class whose attributes are declared with \<open>Field(...)\<close>.
  A class is embedded as its \<open>table=\<close> keyword and the list of its column
  declarations, in source order: the attribute name, its type annotation and the
  keyword arguments of its \<open>Field\<close> call.
  An instance of a class is an association list from attribute names to values.
  \<open>Relationship(...)\<close> attributes are ORM navigation properties, not validated columns,
  and \<open>__tablename__\<close> only names the SQL table; neither is part of the embedding.
\<close>

datatype AnalysisStatus = PENDING | PROCESSING | COMPLETED | FAILED

datatype AllergenSeverity = LOW | MEDIUM | HIGH | SEVERE

fun AnalysisStatus_value :: "AnalysisStatus \<Rightarrow> string" where
  "AnalysisStatus_value PENDING = ''pending''"
| "AnalysisStatus_value PROCESSING = ''processing''"
| "AnalysisStatus_value COMPLETED = ''completed''"
| "AnalysisStatus_value FAILED = ''failed''"

fun AllergenSeverity_value :: "AllergenSeverity \<Rightarrow> string" where
  "AllergenSeverity_value LOW = ''low''"
| "AllergenSeverity_value MEDIUM = ''medium''"
| "AllergenSeverity_value HIGH = ''high''"
| "AllergenSeverity_value SEVERE = ''severe''"

text \<open>
  A finite \<open>decimal.Decimal\<close> is what \<open>as_tuple()\<close> returns: a sign, the coefficient's
  digits and an exponent. \<open>Decimal('1.0001')\<close> is \<open>Decimal False [1,0,0,0,1] (-4)\<close>.
\<close>

datatype decimal = Decimal (dsign: bool) (ddigits: "nat list") (dexponent: int)

fun coefficient :: "nat list \<Rightarrow> int" where
  "coefficient ds = foldl (\<lambda>acc d. 10 * acc + int d) 0 ds"

definition decimal_value :: "decimal \<Rightarrow> rat" where
  "decimal_value d =
     (let c = of_int (coefficient (ddigits d)) :: rat;
          m = (if dexponent d \<ge> 0 then c * 10 ^ nat (dexponent d)
               else c / 10 ^ nat (- dexponent d))
      in if dsign d then - m else m)"

text \<open>The free-form document of \<open>Dict[str, Any]\<close>.\<close>

datatype json = JNull | JBool bool | JInt int | JStr string
  | JList "json list" | JDict "(string \<times> json) list"

text \<open>A naive \<open>datetime\<close>, as microseconds since the epoch.\<close>

type_synonym datetime = int

datatype pyvalue =
    VNone
  | VInt int
  | VStr string
  | VBool bool
  | VDecimal decimal
  | VDatetime datetime
  | VStatus AnalysisStatus
  | VSeverity AllergenSeverity
  | VDict "(string \<times> json) list"
  | VStrList "string list"

datatype annotation =
    TInt | TStr | TBool | TDecimal | TDatetime | TStatus | TSeverity | TDict | TStrList
  | TOptional annotation

section \<open>Regular expressions\<close>

text \<open>
  The \<open>regex=\<close> argument of a field is a pattern anchored at both ends
  (\<open>^ ... $\<close>). The part between the anchors is kept as a syntax tree and matched
  against a whole string with derivatives (\<open>fullmatch\<close>); the anchors are those of
  Python's \<open>re.match\<close>, where \<open>$\<close> matches at the end of the string and also just
  before a newline that ends it (\<open>match_anchored\<close>). A character class is a list of
  inclusive ranges; a single character \<open>c\<close> is the range \<open>(c, c)\<close>. A \<open>str\<close> is a list
  of characters, and its length is their number.
\<close>

datatype rexp =
    Never
  | Empty
  | Class "(char \<times> char) list"
  | Seq rexp rexp
  | Or rexp rexp
  | Star rexp

definition in_class :: "char \<Rightarrow> (char \<times> char) list \<Rightarrow> bool" where
  "in_class c rs =
     list_ex (\<lambda>(lo, hi). (of_char lo :: nat) \<le> of_char c \<and> (of_char c :: nat) \<le> of_char hi) rs"

fun nullable :: "rexp \<Rightarrow> bool" where
  "nullable Never = False"
| "nullable Empty = True"
| "nullable (Class rs) = False"
| "nullable (Seq r s) = (nullable r \<and> nullable s)"
| "nullable (Or r s) = (nullable r \<or> nullable s)"
| "nullable (Star r) = True"

fun deriv :: "char \<Rightarrow> rexp \<Rightarrow> rexp" where
  "deriv c Never = Never"
| "deriv c Empty = Never"
| "deriv c (Class rs) = (if in_class c rs then Empty else Never)"
| "deriv c (Seq r s) =
     (if nullable r then Or (Seq (deriv c r) s) (deriv c s) else Seq (deriv c r) s)"
| "deriv c (Or r s) = Or (deriv c r) (deriv c s)"
| "deriv c (Star r) = Seq (deriv c r) (Star r)"

fun fullmatch :: "rexp \<Rightarrow> string \<Rightarrow> bool" where
  "fullmatch r [] = nullable r"
| "fullmatch r (c # cs) = fullmatch (deriv c r) cs"

definition match_anchored :: "rexp \<Rightarrow> string \<Rightarrow> bool" where
  "match_anchored r s =
     (fullmatch r s \<or>
      (case rev s of
         [] \<Rightarrow> False
       | c # w \<Rightarrow> c = CHR 0x0A \<and> fullmatch r (rev w)))"

definition Lit :: "char \<Rightarrow> rexp" where
  "Lit c = Class [(c, c)]"

definition OneOrMore :: "rexp \<Rightarrow> rexp" where
  "OneOrMore r = Seq r (Star r)"

text \<open>
  \<^verbatim>\<open>^[a-zA-Z0-9_.+-]+@[a-zA-Z0-9-]+\.[a-zA-Z0-9-.]+$\<close> (line 29). In each class the
  hyphen that does not sit between two range ends is a literal hyphen.
\<close>

definition email_regex :: rexp where
  "email_regex =
     Seq (OneOrMore (Class [(CHR ''a'', CHR ''z''), (CHR ''A'', CHR ''Z''), (CHR ''0'', CHR ''9''),
                            (CHR ''_'', CHR ''_''), (CHR ''.'', CHR ''.''), (CHR ''+'', CHR ''+''),
                            (CHR ''-'', CHR ''-'')]))
    (Seq (Lit (CHR ''@''))
    (Seq (OneOrMore (Class [(CHR ''a'', CHR ''z''), (CHR ''A'', CHR ''Z''), (CHR ''0'', CHR ''9''),
                            (CHR ''-'', CHR ''-'')]))
    (Seq (Lit (CHR ''.''))
         (OneOrMore (Class [(CHR ''a'', CHR ''z''), (CHR ''A'', CHR ''Z''), (CHR ''0'', CHR ''9''),
                            (CHR ''-'', CHR ''-''), (CHR ''.'', CHR ''.'')])))))"

section \<open>Field declarations\<close>

datatype factory = utcnow | list_factory

datatype default_spec = Undefined | Default pyvalue | DefaultFactory factory

text \<open>The keyword arguments of \<open>Field(...)\<close> that the module uses.\<close>

record field_info =
  default_value :: default_spec
  max_length :: "nat option"
  gt :: "int option"
  regex :: "rexp option"
  decimal_places :: "nat option"
  max_digits :: "nat option"
  primary_key :: bool
  unique :: bool
  foreign_key :: "string option"
  sa_column :: "string option"

text \<open>\<open>Field()\<close> with no argument; an attribute with a bare annotation has the same info.\<close>

definition Field :: field_info where
  "Field = \<lparr> default_value = Undefined, max_length = None, gt = None, regex = None,
             decimal_places = None, max_digits = None, primary_key = False, unique = False,
             foreign_key = None, sa_column = None \<rparr>"

type_synonym field_decl = "string \<times> annotation \<times> field_info"

text \<open>
  \<open>class E(SQLModel, table=b)\<close> with its column declarations. A class with
  \<open>table=True\<close> is a table model, one with \<open>table=False\<close> a plain data shape.
\<close>

datatype model = SQLModel (table: bool) (fields: "field_decl list")

fun fname :: "field_decl \<Rightarrow> string" where
  "fname (n, t, fi) = n"

fun fannotation :: "field_decl \<Rightarrow> annotation" where
  "fannotation (n, t, fi) = t"

fun finfo :: "field_decl \<Rightarrow> field_info" where
  "finfo (n, t, fi) = fi"

text \<open>The declaration of attribute \<open>n\<close> in a class, if it has one.\<close>

definition declared :: "model \<Rightarrow> string \<Rightarrow> field_decl option" where
  "declared E n = find (\<lambda>fd. fname fd = n) (fields E)"

section \<open>Persistent models\<close>

definition User :: model where
  "User = SQLModel True [
     (''id'', TOptional TInt, Field\<lparr>default_value := Default VNone, primary_key := True\<rparr>),
     (''username'', TStr, Field\<lparr>max_length := Some 50, unique := True\<rparr>),
     (''email'', TStr, Field\<lparr>unique := True, max_length := Some 255, regex := Some email_regex\<rparr>),
     (''full_name'', TOptional TStr, Field\<lparr>default_value := Default VNone, max_length := Some 100\<rparr>),
     (''is_active'', TBool, Field\<lparr>default_value := Default (VBool True)\<rparr>),
     (''created_at'', TDatetime, Field\<lparr>default_value := DefaultFactory utcnow\<rparr>),
     (''updated_at'', TDatetime, Field\<lparr>default_value := DefaultFactory utcnow\<rparr>)]"

definition FoodImage :: model where
  "FoodImage = SQLModel True [
     (''id'', TOptional TInt, Field\<lparr>default_value := Default VNone, primary_key := True\<rparr>),
     (''user_id'', TInt, Field\<lparr>foreign_key := Some ''users.id''\<rparr>),
     (''filename'', TStr, Field\<lparr>max_length := Some 255\<rparr>),
     (''file_path'', TStr, Field\<lparr>max_length := Some 500\<rparr>),
     (''file_size'', TInt, Field\<lparr>gt := Some 0\<rparr>),
     (''mime_type'', TStr, Field\<lparr>max_length := Some 100\<rparr>),
     (''original_filename'', TOptional TStr, Field\<lparr>default_value := Default VNone, max_length := Some 255\<rparr>),
     (''description'', TOptional TStr, Field\<lparr>default_value := Default VNone, max_length := Some 1000\<rparr>),
     (''uploaded_at'', TDatetime, Field\<lparr>default_value := DefaultFactory utcnow\<rparr>)]"

definition NutritionalAnalysis :: model where
  "NutritionalAnalysis = SQLModel True [
     (''id'', TOptional TInt, Field\<lparr>default_value := Default VNone, primary_key := True\<rparr>),
     (''food_image_id'', TInt, Field\<lparr>foreign_key := Some ''food_images.id'', unique := True\<rparr>),
     (''status'', TStatus, Field\<lparr>default_value := Default (VStatus PENDING)\<rparr>),
     (''food_name'', TOptional TStr, Field\<lparr>default_value := Default VNone, max_length := Some 200\<rparr>),
     (''food_category'', TOptional TStr, Field\<lparr>default_value := Default VNone, max_length := Some 100\<rparr>),
     (''confidence_score'', TOptional TDecimal, Field\<lparr>default_value := Default VNone, decimal_places := Some 4, max_digits := Some 5\<rparr>),
     (''calories'', TOptional TDecimal, Field\<lparr>default_value := Default VNone, decimal_places := Some 2, max_digits := Some 8\<rparr>),
     (''protein'', TOptional TDecimal, Field\<lparr>default_value := Default VNone, decimal_places := Some 2, max_digits := Some 8\<rparr>),
     (''carbohydrates'', TOptional TDecimal, Field\<lparr>default_value := Default VNone, decimal_places := Some 2, max_digits := Some 8\<rparr>),
     (''total_fat'', TOptional TDecimal, Field\<lparr>default_value := Default VNone, decimal_places := Some 2, max_digits := Some 8\<rparr>),
     (''saturated_fat'', TOptional TDecimal, Field\<lparr>default_value := Default VNone, decimal_places := Some 2, max_digits := Some 8\<rparr>),
     (''fiber'', TOptional TDecimal, Field\<lparr>default_value := Default VNone, decimal_places := Some 2, max_digits := Some 8\<rparr>),
     (''sugar'', TOptional TDecimal, Field\<lparr>default_value := Default VNone, decimal_places := Some 2, max_digits := Some 8\<rparr>),
     (''sodium'', TOptional TDecimal, Field\<lparr>default_value := Default VNone, decimal_places := Some 2, max_digits := Some 8\<rparr>),
     (''vitamin_a'', TOptional TDecimal, Field\<lparr>default_value := Default VNone, decimal_places := Some 2, max_digits := Some 8\<rparr>),
     (''vitamin_c'', TOptional TDecimal, Field\<lparr>default_value := Default VNone, decimal_places := Some 2, max_digits := Some 8\<rparr>),
     (''vitamin_d'', TOptional TDecimal, Field\<lparr>default_value := Default VNone, decimal_places := Some 2, max_digits := Some 8\<rparr>),
     (''vitamin_e'', TOptional TDecimal, Field\<lparr>default_value := Default VNone, decimal_places := Some 2, max_digits := Some 8\<rparr>),
     (''vitamin_k'', TOptional TDecimal, Field\<lparr>default_value := Default VNone, decimal_places := Some 2, max_digits := Some 8\<rparr>),
     (''vitamin_b1'', TOptional TDecimal, Field\<lparr>default_value := Default VNone, decimal_places := Some 2, max_digits := Some 8\<rparr>),
     (''vitamin_b2'', TOptional TDecimal, Field\<lparr>default_value := Default VNone, decimal_places := Some 2, max_digits := Some 8\<rparr>),
     (''vitamin_b3'', TOptional TDecimal, Field\<lparr>default_value := Default VNone, decimal_places := Some 2, max_digits := Some 8\<rparr>),
     (''vitamin_b6'', TOptional TDecimal, Field\<lparr>default_value := Default VNone, decimal_places := Some 2, max_digits := Some 8\<rparr>),
     (''vitamin_b12'', TOptional TDecimal, Field\<lparr>default_value := Default VNone, decimal_places := Some 2, max_digits := Some 8\<rparr>),
     (''folate'', TOptional TDecimal, Field\<lparr>default_value := Default VNone, decimal_places := Some 2, max_digits := Some 8\<rparr>),
     (''calcium'', TOptional TDecimal, Field\<lparr>default_value := Default VNone, decimal_places := Some 2, max_digits := Some 8\<rparr>),
     (''iron'', TOptional TDecimal, Field\<lparr>default_value := Default VNone, decimal_places := Some 2, max_digits := Some 8\<rparr>),
     (''magnesium'', TOptional TDecimal, Field\<lparr>default_value := Default VNone, decimal_places := Some 2, max_digits := Some 8\<rparr>),
     (''phosphorus'', TOptional TDecimal, Field\<lparr>default_value := Default VNone, decimal_places := Some 2, max_digits := Some 8\<rparr>),
     (''potassium'', TOptional TDecimal, Field\<lparr>default_value := Default VNone, decimal_places := Some 2, max_digits := Some 8\<rparr>),
     (''zinc'', TOptional TDecimal, Field\<lparr>default_value := Default VNone, decimal_places := Some 2, max_digits := Some 8\<rparr>),
     (''estimated_weight'', TOptional TDecimal, Field\<lparr>default_value := Default VNone, decimal_places := Some 2, max_digits := Some 8\<rparr>),
     (''serving_size'', TOptional TStr, Field\<lparr>default_value := Default VNone, max_length := Some 100\<rparr>),
     (''analysis_model'', TOptional TStr, Field\<lparr>default_value := Default VNone, max_length := Some 100\<rparr>),
     (''analysis_version'', TOptional TStr, Field\<lparr>default_value := Default VNone, max_length := Some 50\<rparr>),
     (''processing_time'', TOptional TDecimal, Field\<lparr>default_value := Default VNone, decimal_places := Some 3, max_digits := Some 8\<rparr>),
     (''error_message'', TOptional TStr, Field\<lparr>default_value := Default VNone, max_length := Some 1000\<rparr>),
     (''raw_response'', TOptional TDict, Field\<lparr>default_value := Default VNone, sa_column := Some ''JSON''\<rparr>),
     (''created_at'', TDatetime, Field\<lparr>default_value := DefaultFactory utcnow\<rparr>),
     (''updated_at'', TDatetime, Field\<lparr>default_value := DefaultFactory utcnow\<rparr>)]"

definition Allergen :: model where
  "Allergen = SQLModel True [
     (''id'', TOptional TInt, Field\<lparr>default_value := Default VNone, primary_key := True\<rparr>),
     (''name'', TStr, Field\<lparr>max_length := Some 100, unique := True\<rparr>),
     (''category'', TOptional TStr, Field\<lparr>default_value := Default VNone, max_length := Some 50\<rparr>),
     (''description'', TOptional TStr, Field\<lparr>default_value := Default VNone, max_length := Some 500\<rparr>),
     (''is_common'', TBool, Field\<lparr>default_value := Default (VBool False)\<rparr>),
     (''created_at'', TDatetime, Field\<lparr>default_value := DefaultFactory utcnow\<rparr>)]"

definition AnalysisAllergen :: model where
  "AnalysisAllergen = SQLModel True [
     (''id'', TOptional TInt, Field\<lparr>default_value := Default VNone, primary_key := True\<rparr>),
     (''analysis_id'', TInt, Field\<lparr>foreign_key := Some ''nutritional_analyses.id''\<rparr>),
     (''allergen_id'', TInt, Field\<lparr>foreign_key := Some ''allergens.id''\<rparr>),
     (''severity'', TSeverity, Field\<lparr>default_value := Default (VSeverity LOW)\<rparr>),
     (''confidence'', TOptional TDecimal, Field\<lparr>default_value := Default VNone, decimal_places := Some 4, max_digits := Some 5\<rparr>),
     (''notes'', TOptional TStr, Field\<lparr>default_value := Default VNone, max_length := Some 500\<rparr>),
     (''detected_at'', TDatetime, Field\<lparr>default_value := DefaultFactory utcnow\<rparr>)]"

definition UserAllergen :: model where
  "UserAllergen = SQLModel True [
     (''id'', TOptional TInt, Field\<lparr>default_value := Default VNone, primary_key := True\<rparr>),
     (''user_id'', TInt, Field\<lparr>foreign_key := Some ''users.id''\<rparr>),
     (''allergen_id'', TInt, Field\<lparr>foreign_key := Some ''allergens.id''\<rparr>),
     (''severity'', TSeverity, Field\<lparr>default_value := Default (VSeverity MEDIUM)\<rparr>),
     (''notes'', TOptional TStr, Field\<lparr>default_value := Default VNone, max_length := Some 500\<rparr>),
     (''created_at'', TDatetime, Field\<lparr>default_value := DefaultFactory utcnow\<rparr>)]"

section \<open>Non-persistent schemas\<close>

definition UserCreate :: model where
  "UserCreate = SQLModel False [
     (''username'', TStr, Field\<lparr>max_length := Some 50\<rparr>),
     (''email'', TStr, Field\<lparr>max_length := Some 255\<rparr>),
     (''full_name'', TOptional TStr, Field\<lparr>default_value := Default VNone, max_length := Some 100\<rparr>)]"

definition UserUpdate :: model where
  "UserUpdate = SQLModel False [
     (''username'', TOptional TStr, Field\<lparr>default_value := Default VNone, max_length := Some 50\<rparr>),
     (''email'', TOptional TStr, Field\<lparr>default_value := Default VNone, max_length := Some 255\<rparr>),
     (''full_name'', TOptional TStr, Field\<lparr>default_value := Default VNone, max_length := Some 100\<rparr>),
     (''is_active'', TOptional TBool, Field\<lparr>default_value := Default VNone\<rparr>)]"

definition FoodImageUpload :: model where
  "FoodImageUpload = SQLModel False [
     (''filename'', TStr, Field\<lparr>max_length := Some 255\<rparr>),
     (''file_path'', TStr, Field\<lparr>max_length := Some 500\<rparr>),
     (''file_size'', TInt, Field\<lparr>gt := Some 0\<rparr>),
     (''mime_type'', TStr, Field\<lparr>max_length := Some 100\<rparr>),
     (''original_filename'', TOptional TStr, Field\<lparr>default_value := Default VNone, max_length := Some 255\<rparr>),
     (''description'', TOptional TStr, Field\<lparr>default_value := Default VNone, max_length := Some 1000\<rparr>)]"

definition NutritionalAnalysisCreate :: model where
  "NutritionalAnalysisCreate = SQLModel False [
     (''food_image_id'', TInt, Field),
     (''food_name'', TOptional TStr, Field\<lparr>default_value := Default VNone, max_length := Some 200\<rparr>),
     (''food_category'', TOptional TStr, Field\<lparr>default_value := Default VNone, max_length := Some 100\<rparr>),
     (''confidence_score'', TOptional TDecimal, Field\<lparr>default_value := Default VNone\<rparr>),
     (''calories'', TOptional TDecimal, Field\<lparr>default_value := Default VNone\<rparr>),
     (''protein'', TOptional TDecimal, Field\<lparr>default_value := Default VNone\<rparr>),
     (''carbohydrates'', TOptional TDecimal, Field\<lparr>default_value := Default VNone\<rparr>),
     (''total_fat'', TOptional TDecimal, Field\<lparr>default_value := Default VNone\<rparr>),
     (''saturated_fat'', TOptional TDecimal, Field\<lparr>default_value := Default VNone\<rparr>),
     (''fiber'', TOptional TDecimal, Field\<lparr>default_value := Default VNone\<rparr>),
     (''sugar'', TOptional TDecimal, Field\<lparr>default_value := Default VNone\<rparr>),
     (''sodium'', TOptional TDecimal, Field\<lparr>default_value := Default VNone\<rparr>),
     (''vitamin_a'', TOptional TDecimal, Field\<lparr>default_value := Default VNone\<rparr>),
     (''vitamin_c'', TOptional TDecimal, Field\<lparr>default_value := Default VNone\<rparr>),
     (''vitamin_d'', TOptional TDecimal, Field\<lparr>default_value := Default VNone\<rparr>),
     (''vitamin_e'', TOptional TDecimal, Field\<lparr>default_value := Default VNone\<rparr>),
     (''vitamin_k'', TOptional TDecimal, Field\<lparr>default_value := Default VNone\<rparr>),
     (''vitamin_b1'', TOptional TDecimal, Field\<lparr>default_value := Default VNone\<rparr>),
     (''vitamin_b2'', TOptional TDecimal, Field\<lparr>default_value := Default VNone\<rparr>),
     (''vitamin_b3'', TOptional TDecimal, Field\<lparr>default_value := Default VNone\<rparr>),
     (''vitamin_b6'', TOptional TDecimal, Field\<lparr>default_value := Default VNone\<rparr>),
     (''vitamin_b12'', TOptional TDecimal, Field\<lparr>default_value := Default VNone\<rparr>),
     (''folate'', TOptional TDecimal, Field\<lparr>default_value := Default VNone\<rparr>),
     (''calcium'', TOptional TDecimal, Field\<lparr>default_value := Default VNone\<rparr>),
     (''iron'', TOptional TDecimal, Field\<lparr>default_value := Default VNone\<rparr>),
     (''magnesium'', TOptional TDecimal, Field\<lparr>default_value := Default VNone\<rparr>),
     (''phosphorus'', TOptional TDecimal, Field\<lparr>default_value := Default VNone\<rparr>),
     (''potassium'', TOptional TDecimal, Field\<lparr>default_value := Default VNone\<rparr>),
     (''zinc'', TOptional TDecimal, Field\<lparr>default_value := Default VNone\<rparr>),
     (''estimated_weight'', TOptional TDecimal, Field\<lparr>default_value := Default VNone\<rparr>),
     (''serving_size'', TOptional TStr, Field\<lparr>default_value := Default VNone, max_length := Some 100\<rparr>),
     (''analysis_model'', TOptional TStr, Field\<lparr>default_value := Default VNone, max_length := Some 100\<rparr>),
     (''analysis_version'', TOptional TStr, Field\<lparr>default_value := Default VNone, max_length := Some 50\<rparr>),
     (''processing_time'', TOptional TDecimal, Field\<lparr>default_value := Default VNone\<rparr>)]"

definition NutritionalAnalysisUpdate :: model where
  "NutritionalAnalysisUpdate = SQLModel False [
     (''status'', TOptional TStatus, Field\<lparr>default_value := Default VNone\<rparr>),
     (''error_message'', TOptional TStr, Field\<lparr>default_value := Default VNone, max_length := Some 1000\<rparr>),
     (''raw_response'', TOptional TDict, Field\<lparr>default_value := Default VNone\<rparr>)]"

definition AllergenCreate :: model where
  "AllergenCreate = SQLModel False [
     (''name'', TStr, Field\<lparr>max_length := Some 100\<rparr>),
     (''category'', TOptional TStr, Field\<lparr>default_value := Default VNone, max_length := Some 50\<rparr>),
     (''description'', TOptional TStr, Field\<lparr>default_value := Default VNone, max_length := Some 500\<rparr>),
     (''is_common'', TBool, Field\<lparr>default_value := Default (VBool False)\<rparr>)]"

definition AnalysisAllergenCreate :: model where
  "AnalysisAllergenCreate = SQLModel False [
     (''analysis_id'', TInt, Field),
     (''allergen_id'', TInt, Field),
     (''severity'', TSeverity, Field\<lparr>default_value := Default (VSeverity LOW)\<rparr>),
     (''confidence'', TOptional TDecimal, Field\<lparr>default_value := Default VNone\<rparr>),
     (''notes'', TOptional TStr, Field\<lparr>default_value := Default VNone, max_length := Some 500\<rparr>)]"

definition UserAllergenCreate :: model where
  "UserAllergenCreate = SQLModel False [
     (''user_id'', TInt, Field),
     (''allergen_id'', TInt, Field),
     (''severity'', TSeverity, Field\<lparr>default_value := Default (VSeverity MEDIUM)\<rparr>),
     (''notes'', TOptional TStr, Field\<lparr>default_value := Default VNone, max_length := Some 500\<rparr>)]"

text \<open>Response schemas for the API.\<close>

definition NutritionalAnalysisResponse :: model where
  "NutritionalAnalysisResponse = SQLModel False [
     (''id'', TInt, Field),
     (''food_image_id'', TInt, Field),
     (''status'', TStatus, Field),
     (''food_name'', TOptional TStr, Field),
     (''food_category'', TOptional TStr, Field),
     (''confidence_score'', TOptional TDecimal, Field),
     (''calories'', TOptional TDecimal, Field),
     (''protein'', TOptional TDecimal, Field),
     (''carbohydrates'', TOptional TDecimal, Field),
     (''total_fat'', TOptional TDecimal, Field),
     (''fiber'', TOptional TDecimal, Field),
     (''sugar'', TOptional TDecimal, Field),
     (''sodium'', TOptional TDecimal, Field),
     (''vitamin_c'', TOptional TDecimal, Field),
     (''calcium'', TOptional TDecimal, Field),
     (''iron'', TOptional TDecimal, Field),
     (''estimated_weight'', TOptional TDecimal, Field),
     (''serving_size'', TOptional TStr, Field),
     (''created_at'', TStr, Field),
     (''allergens'', TStrList, Field\<lparr>default_value := DefaultFactory list_factory\<rparr>)]"

definition FoodImageResponse :: model where
  "FoodImageResponse = SQLModel False [
     (''id'', TInt, Field),
     (''filename'', TStr, Field),
     (''original_filename'', TOptional TStr, Field),
     (''file_size'', TInt, Field),
     (''description'', TOptional TStr, Field),
     (''uploaded_at'', TStr, Field),
     (''analysis_status'', TOptional TStatus, Field)]"

section \<open>Field constraints\<close>

text \<open>
  The source declares constraints and leaves checking them to the library it builds on.
  Each keyword of \<open>Field\<close> is given the meaning the library documents for it:
  \<open>max_length\<close> bounds the length of a string, \<open>gt\<close> is a strict lower bound of an
  integer, \<open>regex\<close> must match the string, \<open>max_digits\<close> bounds the number of digits
  of a decimal, \<open>decimal_places\<close> the digits after the point, and with both the digits
  before the point are at most their difference. \<open>None\<close> passes an \<open>Optional\<close>
  annotation and no other; a value of another type is taken to be an error and is not
  converted (the spec: "never silently coerced"). An error names the constraint that
  is broken.
\<close>

datatype error_type =
    missing
  | type_error
  | max_length_error nat
  | greater_than_error int
  | regex_error
  | max_digits_error nat
  | decimal_places_error nat
  | whole_digits_error int

type_synonym ValidationError = "(string \<times> error_type) list"

fun base_type :: "pyvalue \<Rightarrow> annotation option" where
  "base_type VNone = None"
| "base_type (VInt i) = Some TInt"
| "base_type (VStr s) = Some TStr"
| "base_type (VBool b) = Some TBool"
| "base_type (VDecimal d) = Some TDecimal"
| "base_type (VDatetime t) = Some TDatetime"
| "base_type (VStatus s) = Some TStatus"
| "base_type (VSeverity s) = Some TSeverity"
| "base_type (VDict d) = Some TDict"
| "base_type (VStrList xs) = Some TStrList"

fun isinstance :: "pyvalue \<Rightarrow> annotation \<Rightarrow> bool" where
  "isinstance v (TOptional t) = (v = VNone \<or> isinstance v t)"
| "isinstance v t = (base_type v = Some t)"

text \<open>
  The number of digits and of decimal places of a decimal, from its digit tuple and
  exponent: \<open>Decimal('1.0001')\<close> has 5 digits and 4 places, \<open>Decimal('0.01')\<close>
  (digits \<open>[1]\<close>, exponent \<open>-2\<close>) has 2 and 2, \<open>Decimal('1E+2')\<close> has 3 and 0.
\<close>

definition decimal_digits :: "decimal \<Rightarrow> nat \<times> nat" where
  "decimal_digits d =
     (let n = length (ddigits d); e = dexponent d
      in if e \<ge> 0 then (n + nat e, 0)
         else if nat (- e) > n then (nat (- e), nat (- e))
         else (n, nat (- e)))"

definition check_decimal :: "field_info \<Rightarrow> decimal \<Rightarrow> error_type list" where
  "check_decimal fi d =
     (let (digits, decimals) = decimal_digits d
      in case max_digits fi of
           Some m \<Rightarrow>
             if digits > m then [max_digits_error m]
             else (case decimal_places fi of
                     Some p \<Rightarrow>
                       if decimals > p then [decimal_places_error p]
                       else if int digits - int decimals > int m - int p
                         then [whole_digits_error (int m - int p)]
                       else []
                   | None \<Rightarrow> [])
         | None \<Rightarrow>
             (case decimal_places fi of
                Some p \<Rightarrow> if decimals > p then [decimal_places_error p] else []
              | None \<Rightarrow> []))"

definition check_str :: "field_info \<Rightarrow> string \<Rightarrow> error_type list" where
  "check_str fi s =
     (case max_length fi of
        Some n \<Rightarrow> if length s > n then [max_length_error n] else []
      | None \<Rightarrow> [])
     @ (case regex fi of
          Some r \<Rightarrow> if match_anchored r s then [] else [regex_error]
        | None \<Rightarrow> [])"

definition check_int :: "field_info \<Rightarrow> int \<Rightarrow> error_type list" where
  "check_int fi i =
     (case gt fi of
        Some b \<Rightarrow> if i > b then [] else [greater_than_error b]
      | None \<Rightarrow> [])"

fun check_constraints :: "field_info \<Rightarrow> pyvalue \<Rightarrow> error_type list" where
  "check_constraints fi (VStr s) = check_str fi s"
| "check_constraints fi (VInt i) = check_int fi i"
| "check_constraints fi (VDecimal d) = check_decimal fi d"
| "check_constraints fi v = []"

definition validate_value :: "field_decl \<Rightarrow> pyvalue \<Rightarrow> error_type list" where
  "validate_value fd v =
     (if isinstance v (fannotation fd) then check_constraints (finfo fd) v else [type_error])"

text \<open>
  The errors of one attribute: \<open>None\<close> is an attribute the caller did not pass. It is
  an error only when the declaration has no default; a default is not validated.
\<close>

fun field_errors :: "field_decl \<Rightarrow> pyvalue option \<Rightarrow> error_type list" where
  "field_errors fd (Some v) = validate_value fd v"
| "field_errors fd None =
     (case default_value (finfo fd) of Undefined \<Rightarrow> [missing] | _ \<Rightarrow> [])"

section \<open>Instantiation\<close>

text \<open>
  \<open>default_factory=datetime.utcnow\<close> reads the machine's clock whenever an object
  is built without that attribute. The clock is made explicit as the sequence of the
  readings still to come: a call takes the first and leaves the rest.
\<close>

type_synonym clock = "nat \<Rightarrow> datetime"

fun call_factory :: "factory \<Rightarrow> clock \<Rightarrow> pyvalue \<times> clock" where
  "call_factory utcnow clk = (VDatetime (clk 0), \<lambda>n. clk (Suc n))"
| "call_factory list_factory clk = (VStrList [], clk)"

text \<open>
  The value an attribute gets: the keyword argument passed for it, else its declared
  default, else what its default factory returns. (An attribute with neither is a
  validation error; \<open>None\<close> stands in for the value it never gets.)
\<close>

fun field_value :: "field_decl \<Rightarrow> pyvalue option \<Rightarrow> clock \<Rightarrow> pyvalue \<times> clock" where
  "field_value fd (Some v) clk = (v, clk)"
| "field_value fd None clk =
     (case default_value (finfo fd) of
        Undefined \<Rightarrow> (VNone, clk)
      | Default d \<Rightarrow> (d, clk)
      | DefaultFactory f \<Rightarrow> call_factory f clk)"

type_synonym model_instance = "(string \<times> pyvalue) list"

text \<open>
  The object that \<open>E(**kwargs)\<close> builds: the declared attributes in declaration order,
  each with its value; keyword arguments the class does not declare are ignored. The
  second component is the clock after the call.
\<close>

fun instantiate_fields ::
  "field_decl list \<Rightarrow> clock \<Rightarrow> (string \<rightharpoonup> pyvalue) \<Rightarrow> model_instance \<times> clock" where
  "instantiate_fields [] clk kwargs = ([], clk)"
| "instantiate_fields (fd # fds) clk kwargs =
     (let (v, clk1) = field_value fd (kwargs (fname fd)) clk;
          (vals, clk2) = instantiate_fields fds clk1 kwargs
      in ((fname fd, v) # vals, clk2))"

definition instantiate :: "model \<Rightarrow> clock \<Rightarrow> (string \<rightharpoonup> pyvalue) \<Rightarrow> model_instance \<times> clock" where
  "instantiate E clk kwargs = instantiate_fields (fields E) clk kwargs"

text \<open>An object is an instance of a class when it has the attributes the class declares.\<close>

definition instance_of :: "model \<Rightarrow> model_instance \<Rightarrow> bool" where
  "instance_of E obj = (map fst obj = map fname (fields E))"

text \<open>Every error of an input, attribute by attribute in declaration order.\<close>

definition all_errors :: "model \<Rightarrow> (string \<rightharpoonup> pyvalue) \<Rightarrow> ValidationError" where
  "all_errors E kwargs =
     concat (map (\<lambda>fd. map (Pair (fname fd)) (field_errors fd (kwargs (fname fd)))) (fields E))"

text \<open>Valid input: no attribute of the class has an error.\<close>

definition valid_input :: "model \<Rightarrow> (string \<rightharpoonup> pyvalue) \<Rightarrow> bool" where
  "valid_input E kwargs = list_all (\<lambda>fd. field_errors fd (kwargs (fname fd)) = []) (fields E)"

section \<open>Construct\<close>

text \<open>
  Construct(E, field values) is the call \<open>E(**kwargs)\<close>, and the \<open>table=\<close> keyword of
  the class decides what it does with an input that breaks a declared constraint. A
  class with \<open>table=False\<close> validates its input: the call raises a ValidationError
  that lists every offending attribute with the constraint it breaks, and returns the
  object only when there is none. A class with \<open>table=True\<close> is built without
  validation: the call returns the object whatever the values are.
\<close>

definition Construct ::
  "model \<Rightarrow> clock \<Rightarrow> (string \<rightharpoonup> pyvalue) \<Rightarrow> (ValidationError + model_instance) \<times> clock" where
  "Construct E clk kwargs =
     (let (obj, clk') = instantiate E clk kwargs
      in (if table E \<or> all_errors E kwargs = [] then Inr obj else Inl (all_errors E kwargs),
          clk'))"

section \<open>ApplyUpdate and ProjectToResponse\<close>

fun overwrite :: "string \<Rightarrow> pyvalue \<Rightarrow> model_instance \<Rightarrow> model_instance" where
  "overwrite k u [] = []"
| "overwrite k u ((k', v) # kvs) =
     (if k' = k then (k', u) # overwrite k u kvs else (k', v) # overwrite k u kvs)"

text \<open>
  Modelled from the spec: ApplyUpdate is not in the source, which only declares the
  update shapes (\<open>UserUpdate\<close>, \<open>NutritionalAnalysisUpdate\<close>), every attribute of
  which is \<open>Optional\<close> with default \<open>None\<close>. "For each field present (non-absent) in
  the update, overwrite the corresponding field on the record; fields absent from the
  update leave the record unchanged"; bumping \<open>updated_at\<close> is left to the
  persistence layer.
\<close>

fun ApplyUpdate :: "model_instance \<Rightarrow> model_instance \<Rightarrow> model_instance" where
  "ApplyUpdate record [] = record"
| "ApplyUpdate record ((k, u) # update) =
     ApplyUpdate (if u = VNone then record else overwrite k u record) update"

text \<open>
  Modelled from the spec: ProjectToResponse is not in the source, which only declares
  the response shapes. It "maps a persistent record (plus any joined rows, e.g., its
  allergen names) into the corresponding curated response shape": each attribute the
  response shape declares is taken from the derived values when they supply it (the
  ISO-8601 text of a timestamp, the allergen names, the status of the joined analysis)
  and from the record otherwise.
\<close>

definition ProjectToResponse ::
  "model \<Rightarrow> model_instance \<Rightarrow> (string \<rightharpoonup> pyvalue) \<Rightarrow> model_instance" where
  "ProjectToResponse R record derived =
     map (\<lambda>fd. (fname fd,
            case derived (fname fd) of
              Some v \<Rightarrow> v
            | None \<Rightarrow> (case map_of record (fname fd) of Some v \<Rightarrow> v | None \<Rightarrow> VNone)))
       (fields R)"

section \<open>Auxiliary notions for the properties\<close>

text \<open>Attribute \<open>n\<close> of class \<open>E\<close> accepts the value \<open>v\<close>.\<close>

definition accepts :: "model \<Rightarrow> string \<Rightarrow> pyvalue \<Rightarrow> bool" where
  "accepts E n v = (case declared E n of Some fd \<Rightarrow> validate_value fd v = [] | None \<Rightarrow> False)"

text \<open>Each Create shape of the module with the table model it creates.\<close>

definition create_shapes :: "(model \<times> model) list" where
  "create_shapes =
     [(UserCreate, User), (FoodImageUpload, FoodImage),
      (NutritionalAnalysisCreate, NutritionalAnalysis), (AllergenCreate, Allergen),
      (AnalysisAllergenCreate, AnalysisAllergen), (UserAllergenCreate, UserAllergen)]"

text \<open>
  What a Create attribute \<open>fc\<close> shares with the table attribute \<open>fe\<close>: annotation,
  default, \<open>max_length\<close> and \<open>gt\<close>; it declares no pattern and no decimal precision.
\<close>

definition same_length_and_bound :: "field_decl \<Rightarrow> field_decl \<Rightarrow> bool" where
  "same_length_and_bound fc fe =
     (fannotation fc = fannotation fe \<and>
      default_value (finfo fc) = default_value (finfo fe) \<and>
      max_length (finfo fc) = max_length (finfo fe) \<and>
      gt (finfo fc) = gt (finfo fe) \<and>
      regex (finfo fc) = None \<and> decimal_places (finfo fc) = None \<and>
      max_digits (finfo fc) = None)"

text \<open>A clock whose \<open>n\<close>-th reading is \<open>n\<close> microseconds.\<close>

definition ticking_clock :: clock where
  "ticking_clock n = int n"

text \<open>Example keyword arguments of an upload, without \<open>file_size\<close>.\<close>

definition example_upload :: "string \<rightharpoonup> pyvalue" where
  "example_upload = [''user_id'' \<mapsto> VInt 7, ''filename'' \<mapsto> VStr ''soup.jpg'',
     ''file_path'' \<mapsto> VStr ''/data/soup.jpg'', ''mime_type'' \<mapsto> VStr ''image/jpeg'']"

text \<open>Example keyword arguments for the allergen link shapes, without severity or confidence.\<close>

definition example_link :: "string \<rightharpoonup> pyvalue" where
  "example_link = [''user_id'' \<mapsto> VInt 7, ''analysis_id'' \<mapsto> VInt 3, ''allergen_id'' \<mapsto> VInt 2]"

text \<open>An example user record and two instances of \<open>UserUpdate\<close>.\<close>

definition example_user :: model_instance where
  "example_user = [(''id'', VInt 1), (''username'', VStr ''alice''), (''email'', VStr ''a@b.c''),
     (''full_name'', VNone), (''is_active'', VBool True), (''created_at'', VDatetime 10),
     (''updated_at'', VDatetime 10)]"

definition example_user_update :: model_instance where
  "example_user_update = [(''username'', VNone), (''email'', VNone), (''full_name'', VNone),
     (''is_active'', VBool False)]"

definition empty_user_update :: model_instance where
  "empty_user_update = [(''username'', VNone), (''email'', VNone), (''full_name'', VNone),
     (''is_active'', VNone)]"

text \<open>Example keyword arguments for a user, without and with timestamps, and a later clock.\<close>

definition example_user_kwargs :: "string \<rightharpoonup> pyvalue" where
  "example_user_kwargs = [''username'' \<mapsto> VStr ''alice'', ''email'' \<mapsto> VStr ''alice@example.com'']"

definition example_user_kwargs_timed :: "string \<rightharpoonup> pyvalue" where
  "example_user_kwargs_timed = example_user_kwargs(''created_at'' \<mapsto> VDatetime 5, ''updated_at'' \<mapsto> VDatetime 5)"

definition late_clock :: clock where
  "late_clock n = 1000 + int n"

text \<open>
  An analysis record carrying a raw response and an error message, a food image record,
  and the joined values that accompany each into its response.
\<close>

definition example_analysis :: model_instance where
  "example_analysis =
     fst (instantiate NutritionalAnalysis ticking_clock
       [''id'' \<mapsto> VInt 9, ''food_image_id'' \<mapsto> VInt 42, ''status'' \<mapsto> VStatus FAILED,
        ''error_message'' \<mapsto> VStr ''timeout'',
        ''raw_response'' \<mapsto> VDict [(''model'', JStr ''v1'')]])"

definition example_analysis_joined :: "string \<rightharpoonup> pyvalue" where
  "example_analysis_joined =
     [''created_at'' \<mapsto> VStr ''1970-01-01T00:00:00'', ''allergens'' \<mapsto> VStrList [''Peanuts'']]"

definition example_food_image :: model_instance where
  "example_food_image =
     fst (instantiate FoodImage ticking_clock (example_upload(''id'' \<mapsto> VInt 4, ''file_size'' \<mapsto> VInt 1)))"

definition example_food_image_joined :: "string \<rightharpoonup> pyvalue" where
  "example_food_image_joined =
     [''uploaded_at'' \<mapsto> VStr ''1970-01-01T00:00:00'', ''analysis_status'' \<mapsto> VStatus FAILED]"

text \<open>\<open>Decimal('1.0001')\<close> and \<open>Decimal('1.0000')\<close>.\<close>

definition one_point_oh_oh_oh_one :: decimal where
  "one_point_oh_oh_oh_one = Decimal False [1, 0, 0, 0, 1] (- 4)"

definition one_point_oh :: decimal where
  "one_point_oh = Decimal False [1, 0, 0, 0, 0] (- 4)"


section \<open>Facts about instantiation and Construct\<close>

lemma names_instantiate_fields:
  "map fst (fst (instantiate_fields fds clk kwargs)) = map fname fds"
  by (induction fds arbitrary: clk) (simp_all add: case_prod_beta)

lemma instantiate_instance_of: "instance_of E (fst (instantiate E clk kwargs))"
  by (simp add: instance_of_def instantiate_def names_instantiate_fields)

lemma concat_map_Nil_iff: "concat (map f xs) = [] \<longleftrightarrow> list_all (\<lambda>x. f x = []) xs"
  by (induction xs) simp_all

lemma all_errors_Nil_iff: "all_errors E kwargs = [] \<longleftrightarrow> valid_input E kwargs"
  by (simp add: all_errors_def valid_input_def concat_map_Nil_iff list_all_iff)

lemma Construct_table:
  "table E \<Longrightarrow> fst (Construct E clk kwargs) = Inr (fst (instantiate E clk kwargs))"
  by (simp add: Construct_def case_prod_beta)

lemma Construct_Inl_iff:
  "\<not> table E \<Longrightarrow>
   fst (Construct E clk kwargs) = Inl errs \<longleftrightarrow> errs = all_errors E kwargs \<and> \<not> valid_input E kwargs"
  using all_errors_Nil_iff [of E kwargs]
  by (auto simp add: Construct_def case_prod_beta)

lemma Construct_Inr_iff:
  "\<not> table E \<Longrightarrow>
   fst (Construct E clk kwargs) = Inr r \<longleftrightarrow> r = fst (instantiate E clk kwargs) \<and> valid_input E kwargs"
  using all_errors_Nil_iff [of E kwargs]
  by (auto simp add: Construct_def case_prod_beta)

lemma all_errors_member:
  "fd \<in> set (fields E) \<Longrightarrow> e \<in> set (field_errors fd (kwargs (fname fd))) \<Longrightarrow>
   (fname fd, e) \<in> set (all_errors E kwargs)"
  by (auto simp add: all_errors_def)

lemma not_valid_input:
  "fd \<in> set (fields E) \<Longrightarrow> field_errors fd (kwargs (fname fd)) \<noteq> [] \<Longrightarrow> \<not> valid_input E kwargs"
  by (auto simp add: valid_input_def list_all_iff)

lemma instantiate_fields_supplied:
  "kwargs n = Some v \<Longrightarrow> n \<in> fname ` set fds \<Longrightarrow>
   map_of (fst (instantiate_fields fds clk kwargs)) n = Some v"
  by (induction fds arbitrary: clk) (auto simp add: case_prod_beta)

lemma instantiate_fields_default:
  "distinct (map fname fds) \<Longrightarrow> fd \<in> set fds \<Longrightarrow> kwargs (fname fd) = None \<Longrightarrow>
   default_value (finfo fd) = Default d \<Longrightarrow>
   map_of (fst (instantiate_fields fds clk kwargs)) (fname fd) = Some d"
  by (induction fds arbitrary: clk) (auto simp add: case_prod_beta)

lemma instantiate_supplied:
  "kwargs n = Some v \<Longrightarrow> n \<in> fname ` set (fields E) \<Longrightarrow>
   map_of (fst (instantiate E clk kwargs)) n = Some v"
  by (simp add: instantiate_def instantiate_fields_supplied)

section \<open>Pattern of the email address\<close>







section \<open>Size of an uploaded file\<close>

lemma not_table_FoodImageUpload: "\<not> table FoodImageUpload"
  by (simp add: FoodImageUpload_def)

lemma table_FoodImage: "table FoodImage"
  by (simp add: FoodImage_def)

lemma file_size_decl:
  "(''file_size'', TInt, Field\<lparr>gt := Some 0\<rparr>) \<in> set (fields FoodImageUpload)"
  "''file_size'' \<in> fname ` set (fields FoodImageUpload)"
  "''file_size'' \<in> fname ` set (fields FoodImage)"
  by (simp_all add: FoodImage_def FoodImageUpload_def)

lemma file_size_one_valid:
  assumes "\<forall>fd\<in>set (fields FoodImageUpload).
             fname fd \<noteq> ''file_size'' \<longrightarrow> field_errors fd (kwargs (fname fd)) = []"
  shows "valid_input FoodImageUpload (kwargs(''file_size'' \<mapsto> VInt 1))"
  using assms
  by (auto simp add: valid_input_def FoodImageUpload_def validate_value_def
        check_int_def Field_def)

text \<open>
  C7 (as amended): the upload shape \<open>FoodImageUpload\<close> validates its input. With a
  \<open>file_size\<close> that is an integer \<open>n \<le> 0\<close>, Construct fails with a ValidationError
  naming \<open>file_size\<close> and the bound \<open>gt=0\<close>; when every other attribute of the input
  is free of errors, the same input with \<open>file_size = 1\<close> makes Construct succeed, with
  \<open>file_size = 1\<close> in the object. The table model \<open>FoodImage\<close> is built without
  validation: Construct returns the record with the \<open>file_size\<close> it is given, whatever
  the integer.
\<close>

theorem file_size_checked_by_upload_shape:
  "(n \<le> 0 \<longrightarrow>
      (\<exists>errs. fst (Construct FoodImageUpload clk (kwargs(''file_size'' \<mapsto> VInt n))) = Inl errs \<and>
              (''file_size'', greater_than_error 0) \<in> set errs)) \<and>
   ((\<forall>fd\<in>set (fields FoodImageUpload).
        fname fd \<noteq> ''file_size'' \<longrightarrow> field_errors fd (kwargs (fname fd)) = []) \<longrightarrow>
      (\<exists>r. fst (Construct FoodImageUpload clk (kwargs(''file_size'' \<mapsto> VInt 1))) = Inr r \<and>
           map_of r ''file_size'' = Some (VInt 1))) \<and>
   (\<exists>r. fst (Construct FoodImage clk (kwargs(''file_size'' \<mapsto> VInt n))) = Inr r \<and>
        map_of r ''file_size'' = Some (VInt n))"
proof -
  let ?fd = "(''file_size'', TInt, Field\<lparr>gt := Some 0\<rparr>)"
  have a: "\<exists>errs. fst (Construct FoodImageUpload clk (kwargs(''file_size'' \<mapsto> VInt n))) = Inl errs \<and>
              (''file_size'', greater_than_error 0) \<in> set errs" if n: "n \<le> 0"
  proof -
    let ?kw = "kwargs(''file_size'' \<mapsto> VInt n)"
    have e: "greater_than_error 0 \<in> set (field_errors ?fd (?kw (fname ?fd)))"
      using n by (simp add: validate_value_def check_int_def Field_def)
    then have "field_errors ?fd (?kw (fname ?fd)) \<noteq> []" by auto
    with file_size_decl(1) have "\<not> valid_input FoodImageUpload ?kw" by (rule not_valid_input)
    moreover have "(fname ?fd, greater_than_error 0) \<in> set (all_errors FoodImageUpload ?kw)"
      using file_size_decl(1) e by (rule all_errors_member)
    ultimately show ?thesis
      by (simp add: Construct_Inl_iff [OF not_table_FoodImageUpload])
  qed
  have b: "\<exists>r. fst (Construct FoodImageUpload clk (kwargs(''file_size'' \<mapsto> VInt 1))) = Inr r \<and>
           map_of r ''file_size'' = Some (VInt 1)"
    if others: "\<forall>fd\<in>set (fields FoodImageUpload).
        fname fd \<noteq> ''file_size'' \<longrightarrow> field_errors fd (kwargs (fname fd)) = []"
  proof -
    let ?kw = "kwargs(''file_size'' \<mapsto> VInt 1)"
    have v: "valid_input FoodImageUpload ?kw" using others by (rule file_size_one_valid)
    have "map_of (fst (instantiate FoodImageUpload clk ?kw)) ''file_size'' = Some (VInt 1)"
      using file_size_decl(2) by (simp add: instantiate_supplied)
    with v show ?thesis by (simp add: Construct_Inr_iff [OF not_table_FoodImageUpload])
  qed
  have c: "\<exists>r. fst (Construct FoodImage clk (kwargs(''file_size'' \<mapsto> VInt n))) = Inr r \<and>
        map_of r ''file_size'' = Some (VInt n)"
  proof -
    let ?kw = "kwargs(''file_size'' \<mapsto> VInt n)"
    have "map_of (fst (instantiate FoodImage clk ?kw)) ''file_size'' = Some (VInt n)"
      using file_size_decl(3) by (simp add: instantiate_supplied)
    then show ?thesis by (simp add: Construct_table [OF table_FoodImage])
  qed
  from a b c show ?thesis by blast
qed

theorem file_size_checked_by_upload_shape_witness:
  "list_all (\<lambda>fd. fname fd = ''file_size'' \<or> field_errors fd (example_upload (fname fd)) = [])
     (fields FoodImageUpload) \<and>
   (\<exists>errs. fst (Construct FoodImageUpload ticking_clock (example_upload(''file_size'' \<mapsto> VInt 0))) = Inl errs \<and>
           (''file_size'', greater_than_error 0) \<in> set errs) \<and>
   (\<exists>r. fst (Construct FoodImageUpload ticking_clock (example_upload(''file_size'' \<mapsto> VInt 1))) = Inr r \<and>
        map_of r ''file_size'' = Some (VInt 1)) \<and>
   (\<exists>r. fst (Construct FoodImage ticking_clock (example_upload(''file_size'' \<mapsto> VInt 0))) = Inr r \<and>
        map_of r ''file_size'' = Some (VInt 0))"
proof -
  have o: "list_all (\<lambda>fd. fname fd = ''file_size'' \<or> field_errors fd (example_upload (fname fd)) = [])
     (fields FoodImageUpload)"
    by (simp add: FoodImageUpload_def example_upload_def validate_value_def check_str_def
          check_int_def Field_def)
  then have o': "\<forall>fd\<in>set (fields FoodImageUpload).
      fname fd \<noteq> ''file_size'' \<longrightarrow> field_errors fd (example_upload (fname fd)) = []"
    by (auto simp add: list_all_iff)
  have z: "(0::int) \<le> 0" by simp
  from file_size_checked_by_upload_shape
         [where n = 0 and clk = ticking_clock and kwargs = example_upload] o o' z
  show ?thesis by blast
qed

text \<open>
  C7 as stated fails: a \<open>FoodImage\<close> built with \<open>file_size = 0\<close> and otherwise valid
  values is not rejected; Construct returns the record with \<open>file_size = 0\<close>.
\<close>

theorem FoodImage_with_size_zero_is_built:
  "fst (Construct FoodImage ticking_clock (example_upload(''file_size'' \<mapsto> VInt 0))) =
     Inr [(''id'', VNone), (''user_id'', VInt 7), (''filename'', VStr ''soup.jpg''),
          (''file_path'', VStr ''/data/soup.jpg''), (''file_size'', VInt 0),
          (''mime_type'', VStr ''image/jpeg''), (''original_filename'', VNone),
          (''description'', VNone), (''uploaded_at'', VDatetime 0)]"
  by (simp add: Construct_def instantiate_def FoodImage_def example_upload_def
        Field_def ticking_clock_def)

section \<open>Declared defaults\<close>

lemma instantiate_Default:
  assumes "distinct (map fname (fields E))" and "fd \<in> set (fields E)"
    and "kwargs (fname fd) = None"
    and "default_value (finfo fd) = Default d"
  shows "map_of (fst (instantiate E clk kwargs)) (fname fd) = Some d"
  using assms by (simp add: instantiate_def instantiate_fields_default)

lemma example_link_valid:
  "valid_input UserAllergenCreate example_link" "valid_input AnalysisAllergenCreate example_link"
  "valid_input UserAllergen example_link" "valid_input AnalysisAllergen example_link"
  by (simp_all add: valid_input_def UserAllergenCreate_def AnalysisAllergenCreate_def
        UserAllergen_def AnalysisAllergen_def
        example_link_def validate_value_def check_int_def Field_def)

text \<open>
  C9: the \<open>UserAllergenCreate\<close> built from keyword arguments that omit \<open>severity\<close>
  has \<open>severity = medium\<close>; the \<open>AnalysisAllergenCreate\<close> built from keyword arguments
  that omit \<open>confidence\<close> has \<open>confidence\<close> absent (\<open>None\<close>), which is no decimal and
  in particular not zero.
\<close>

theorem Create_defaults_medium_and_absent:
  "(kwargs ''severity'' = None \<longrightarrow>
      map_of (fst (instantiate UserAllergenCreate clk kwargs)) ''severity'' =
        Some (VSeverity MEDIUM)) \<and>
   (kwargs' ''confidence'' = None \<longrightarrow>
      map_of (fst (instantiate AnalysisAllergenCreate clk kwargs')) ''confidence'' = Some VNone \<and>
      (\<forall>d. map_of (fst (instantiate AnalysisAllergenCreate clk kwargs')) ''confidence'' \<noteq>
            Some (VDecimal d)))"
proof -
  let ?fd = "(''severity'', TSeverity, Field\<lparr>default_value := Default (VSeverity MEDIUM)\<rparr>)"
  let ?fc = "(''confidence'', TOptional TDecimal, Field\<lparr>default_value := Default VNone\<rparr>)"
  have s: "map_of (fst (instantiate UserAllergenCreate clk kwargs)) ''severity'' =
        Some (VSeverity MEDIUM)" if a: "kwargs ''severity'' = None"
  proof -
    have "map_of (fst (instantiate UserAllergenCreate clk kwargs)) (fname ?fd) =
          Some (VSeverity MEDIUM)"
    proof (rule instantiate_Default)
      show "distinct (map fname (fields UserAllergenCreate))" by (simp add: UserAllergenCreate_def)
      show "?fd \<in> set (fields UserAllergenCreate)" by (simp add: UserAllergenCreate_def)
      show "kwargs (fname ?fd) = None" using a by simp
      show "default_value (finfo ?fd) = Default (VSeverity MEDIUM)" by simp
    qed
    then show ?thesis by simp
  qed
  have c: "map_of (fst (instantiate AnalysisAllergenCreate clk kwargs')) ''confidence'' = Some VNone"
    if a: "kwargs' ''confidence'' = None"
  proof -
    have "map_of (fst (instantiate AnalysisAllergenCreate clk kwargs')) (fname ?fc) = Some VNone"
    proof (rule instantiate_Default)
      show "distinct (map fname (fields AnalysisAllergenCreate))" by (simp add: AnalysisAllergenCreate_def)
      show "?fc \<in> set (fields AnalysisAllergenCreate)" by (simp add: AnalysisAllergenCreate_def)
      show "kwargs' (fname ?fc) = None" using a by simp
      show "default_value (finfo ?fc) = Default VNone" by simp
    qed
    then show ?thesis by simp
  qed
  show ?thesis using s c by simp
qed

theorem Create_defaults_medium_and_absent_witness:
  "valid_input UserAllergenCreate example_link \<and> example_link ''severity'' = None \<and>
   map_of (fst (instantiate UserAllergenCreate ticking_clock example_link)) ''severity'' =
     Some (VSeverity MEDIUM) \<and>
   valid_input AnalysisAllergenCreate example_link \<and> example_link ''confidence'' = None \<and>
   map_of (fst (instantiate AnalysisAllergenCreate ticking_clock example_link)) ''confidence'' =
     Some VNone"
proof -
  have n: "example_link ''severity'' = None" "example_link ''confidence'' = None"
    by (simp_all add: example_link_def)
  from Create_defaults_medium_and_absent
         [where kwargs = example_link and kwargs' = example_link and clk = ticking_clock]
       example_link_valid n
  show ?thesis by blast
qed

text \<open>
  C10: the \<open>AnalysisAllergen\<close> or \<open>AnalysisAllergenCreate\<close> built from keyword arguments
  that omit \<open>severity\<close> has \<open>severity = low\<close>, which is not the \<open>medium\<close> that
  \<open>UserAllergen\<close> and \<open>UserAllergenCreate\<close> declare as their default.
\<close>

theorem Analysis_severity_defaults_low:
  "(E = AnalysisAllergen \<or> E = AnalysisAllergenCreate) \<and> kwargs ''severity'' = None \<longrightarrow>
     map_of (fst (instantiate E clk kwargs)) ''severity'' = Some (VSeverity LOW) \<and>
     map_of (fst (instantiate E clk kwargs)) ''severity'' \<noteq> Some (VSeverity MEDIUM) \<and>
     declared UserAllergen ''severity'' =
       Some (''severity'', TSeverity, Field\<lparr>default_value := Default (VSeverity MEDIUM)\<rparr>) \<and>
     declared UserAllergenCreate ''severity'' =
       Some (''severity'', TSeverity, Field\<lparr>default_value := Default (VSeverity MEDIUM)\<rparr>)"
proof (intro impI conjI)
  assume a: "(E = AnalysisAllergen \<or> E = AnalysisAllergenCreate) \<and> kwargs ''severity'' = None"
  let ?fd = "(''severity'', TSeverity, Field\<lparr>default_value := Default (VSeverity LOW)\<rparr>)"
  have "map_of (fst (instantiate E clk kwargs)) (fname ?fd) = Some (VSeverity LOW)"
  proof (rule instantiate_Default)
    show "distinct (map fname (fields E))" using a
      by (auto simp add: AnalysisAllergen_def AnalysisAllergenCreate_def)
    show "?fd \<in> set (fields E)" using a
      by (auto simp add: AnalysisAllergen_def AnalysisAllergenCreate_def)
    show "kwargs (fname ?fd) = None" using a by simp
    show "default_value (finfo ?fd) = Default (VSeverity LOW)" by simp
  qed
  then show l: "map_of (fst (instantiate E clk kwargs)) ''severity'' = Some (VSeverity LOW)"
    by simp
  then show "map_of (fst (instantiate E clk kwargs)) ''severity'' \<noteq> Some (VSeverity MEDIUM)"
    by simp
next
  show "declared UserAllergen ''severity'' =
       Some (''severity'', TSeverity, Field\<lparr>default_value := Default (VSeverity MEDIUM)\<rparr>)"
    by (simp add: declared_def UserAllergen_def)
next
  show "declared UserAllergenCreate ''severity'' =
       Some (''severity'', TSeverity, Field\<lparr>default_value := Default (VSeverity MEDIUM)\<rparr>)"
    by (simp add: declared_def UserAllergenCreate_def)
qed

theorem Analysis_severity_defaults_low_witness:
  "valid_input AnalysisAllergen example_link \<and> valid_input AnalysisAllergenCreate example_link \<and>
   example_link ''severity'' = None \<and>
   map_of (fst (instantiate AnalysisAllergen ticking_clock example_link)) ''severity'' =
     Some (VSeverity LOW) \<and>
   map_of (fst (instantiate AnalysisAllergenCreate ticking_clock example_link)) ''severity'' =
     Some (VSeverity LOW)"
proof -
  have n: "example_link ''severity'' = None" by (simp add: example_link_def)
  from Analysis_severity_defaults_low
         [where E = AnalysisAllergen and kwargs = example_link and clk = ticking_clock]
       Analysis_severity_defaults_low
         [where E = AnalysisAllergenCreate and kwargs = example_link and clk = ticking_clock]
       example_link_valid n
  show ?thesis by blast
qed

section \<open>Partial updates\<close>

lemma keys_overwrite: "map fst (overwrite k u r) = map fst r"
  by (induction r) auto

lemma map_of_overwrite:
  "map_of (overwrite k u r) k' = (if k' = k \<and> map_of r k \<noteq> None then Some u else map_of r k')"
  by (induction r) auto

lemma keys_ApplyUpdate: "map fst (ApplyUpdate r upd) = map fst r"
  by (induction upd arbitrary: r) (auto simp add: keys_overwrite)

lemma map_of_ApplyUpdate:
  "distinct (map fst upd) \<Longrightarrow>
   map_of (ApplyUpdate r upd) k =
     (case map_of upd k of
        Some u \<Rightarrow> if u \<noteq> VNone \<and> map_of r k \<noteq> None then Some u else map_of r k
      | None \<Rightarrow> map_of r k)"
proof (induction upd arbitrary: r)
  case Nil
  then show ?case by simp
next
  case (Cons p upd)
  obtain k' u' where p: "p = (k', u')" by (cases p)
  define r' where "r' = (if u' = VNone then r else overwrite k' u' r)"
  from Cons.prems p have d: "distinct (map fst upd)" and nk: "k' \<notin> fst ` set upd" by auto
  have ih: "map_of (ApplyUpdate r' upd) k =
     (case map_of upd k of
        Some u \<Rightarrow> if u \<noteq> VNone \<and> map_of r' k \<noteq> None then Some u else map_of r' k
      | None \<Rightarrow> map_of r' k)"
    using Cons.IH [OF d] .
  have step: "ApplyUpdate r (p # upd) = ApplyUpdate r' upd"
    using p by (simp add: r'_def)
  have mr: "map_of r' k =
      (if k = k' \<and> u' \<noteq> VNone \<and> map_of r k' \<noteq> None then Some u' else map_of r k)"
    by (simp add: r'_def map_of_overwrite)
  show ?case
  proof (cases "k = k'")
    case True
    with nk have n: "map_of upd k = None" by (simp add: map_of_eq_None_iff)
    from ih n have "map_of (ApplyUpdate r' upd) k = map_of r' k" by simp
    with mr step p True show ?thesis by simp
  next
    case False
    with mr have "map_of r' k = map_of r k" by simp
    with ih have "map_of (ApplyUpdate r' upd) k =
     (case map_of upd k of
        Some u \<Rightarrow> if u \<noteq> VNone \<and> map_of r k \<noteq> None then Some u else map_of r k
      | None \<Rightarrow> map_of r k)" by (simp split: option.splits)
    with step p False show ?thesis by simp
  qed
qed

lemma ApplyUpdate_all_absent:
  "\<forall>p\<in>set upd. snd p = VNone \<Longrightarrow> ApplyUpdate r upd = r"
  by (induction upd arbitrary: r) auto

lemma example_updates_from_Construct:
  "fst (Construct UserUpdate ticking_clock [''is_active'' \<mapsto> VBool False]) = Inr example_user_update"
  "fst (Construct UserUpdate ticking_clock Map.empty) = Inr empty_user_update"
  by (simp_all add: Construct_def instantiate_def all_errors_def UserUpdate_def Field_def validate_value_def
        example_user_update_def empty_user_update_def)

text \<open>
  C4: for every record and every update whose attributes are distinct (as the instances
  of \<open>UserUpdate\<close> and \<open>NutritionalAnalysisUpdate\<close> are), ApplyUpdate keeps the
  record's attributes, sets every attribute of the record that the update carries with a
  value other than \<open>None\<close> to that value, and leaves every attribute that the update
  lacks or carries as \<open>None\<close> as it was; when every attribute of the update is absent
  the resulting record is the input record.
\<close>

theorem ApplyUpdate_overwrites_present_only:
  assumes "distinct (map fst update)"
  shows "map fst (ApplyUpdate record update) = map fst record \<and>
         (\<forall>k u. map_of update k = Some u \<and> u \<noteq> VNone \<and> k \<in> fst ` set record \<longrightarrow>
                map_of (ApplyUpdate record update) k = Some u) \<and>
         (\<forall>k. map_of update k = None \<or> map_of update k = Some VNone \<longrightarrow>
              map_of (ApplyUpdate record update) k = map_of record k) \<and>
         ((\<forall>k. map_of update k = None \<or> map_of update k = Some VNone) \<longrightarrow>
              ApplyUpdate record update = record)"
proof (intro conjI allI impI)
  show "map fst (ApplyUpdate record update) = map fst record" by (rule keys_ApplyUpdate)
next
  fix k u
  assume "map_of update k = Some u \<and> u \<noteq> VNone \<and> k \<in> fst ` set record"
  then show "map_of (ApplyUpdate record update) k = Some u"
    by (auto simp add: map_of_ApplyUpdate [OF assms] map_of_eq_None_iff)
next
  fix k
  assume "map_of update k = None \<or> map_of update k = Some VNone"
  then show "map_of (ApplyUpdate record update) k = map_of record k"
    by (auto simp add: map_of_ApplyUpdate [OF assms])
next
  assume a: "\<forall>k. map_of update k = None \<or> map_of update k = Some VNone"
  have "\<forall>p\<in>set update. snd p = VNone"
  proof
    fix p assume "p \<in> set update"
    then have "map_of update (fst p) = Some (snd p)"
      using assms by (simp add: map_of_eq_Some_iff)
    with a show "snd p = VNone" by (metis option.distinct(1) option.inject)
  qed
  then show "ApplyUpdate record update = record" by (rule ApplyUpdate_all_absent)
qed

theorem ApplyUpdate_overwrites_present_only_witness:
  "distinct (map fst example_user_update) \<and> distinct (map fst empty_user_update) \<and>
   map_of example_user_update ''is_active'' = Some (VBool False) \<and>
   map_of (ApplyUpdate example_user example_user_update) ''is_active'' = Some (VBool False) \<and>
   map_of example_user_update ''email'' = Some VNone \<and>
   map_of (ApplyUpdate example_user example_user_update) ''email'' = map_of example_user ''email'' \<and>
   ApplyUpdate example_user empty_user_update = example_user"
proof -
  have d: "distinct (map fst example_user_update)" "distinct (map fst empty_user_update)"
    by (simp_all add: example_user_update_def empty_user_update_def)
  have a: "map_of example_user_update ''is_active'' = Some (VBool False)"
    "VBool False \<noteq> VNone" "''is_active'' \<in> fst ` set example_user"
    "map_of example_user_update ''email'' = Some VNone"
    by (simp_all add: example_user_update_def example_user_def)
  have e: "\<forall>k. map_of empty_user_update k = None \<or> map_of empty_user_update k = Some VNone"
    by (simp add: empty_user_update_def)
  from ApplyUpdate_overwrites_present_only [OF d(1), of example_user]
       ApplyUpdate_overwrites_present_only [OF d(2), of example_user] d a e
  show ?thesis by blast
qed

section \<open>Response shapes\<close>

lemma ProjectToResponse_instance_of: "instance_of R (ProjectToResponse R record derived)"
  by (simp add: instance_of_def ProjectToResponse_def comp_def)

text \<open>
  C5: a \<open>NutritionalAnalysisResponse\<close>, whatever record it was projected from, has
  neither a \<open>raw_response\<close> nor an \<open>error_message\<close> attribute, and neither has a
  \<open>FoodImageResponse\<close>: the response shapes declare no such attribute.
\<close>

theorem response_hides_raw_fields:
  "(instance_of NutritionalAnalysisResponse resp \<longrightarrow>
      ''raw_response'' \<notin> fst ` set resp \<and> ''error_message'' \<notin> fst ` set resp) \<and>
   (instance_of FoodImageResponse resp' \<longrightarrow>
      ''raw_response'' \<notin> fst ` set resp' \<and> ''error_message'' \<notin> fst ` set resp')"
proof -
  have s: "fst ` set obj = set (map fname (fields R))" if "instance_of R obj" for R obj
    using that by (metis instance_of_def set_map)
  have n: "''raw_response'' \<notin> set (map fname (fields NutritionalAnalysisResponse))"
    "''error_message'' \<notin> set (map fname (fields NutritionalAnalysisResponse))"
    by (simp_all add: NutritionalAnalysisResponse_def)
  have f: "''raw_response'' \<notin> set (map fname (fields FoodImageResponse))"
    "''error_message'' \<notin> set (map fname (fields FoodImageResponse))"
    by (simp_all add: FoodImageResponse_def)
  have A: "''raw_response'' \<notin> fst ` set resp \<and> ''error_message'' \<notin> fst ` set resp"
    if "instance_of NutritionalAnalysisResponse resp"
    using s [OF that] n by simp
  have B: "''raw_response'' \<notin> fst ` set resp' \<and> ''error_message'' \<notin> fst ` set resp'"
    if "instance_of FoodImageResponse resp'"
    using s [OF that] f by simp
  show ?thesis using A B by blast
qed

theorem response_hides_raw_fields_witness:
  "instance_of NutritionalAnalysisResponse
     (ProjectToResponse NutritionalAnalysisResponse example_analysis example_analysis_joined) \<and>
   ''raw_response'' \<notin> fst ` set (ProjectToResponse NutritionalAnalysisResponse example_analysis example_analysis_joined) \<and>
   ''error_message'' \<notin> fst ` set (ProjectToResponse NutritionalAnalysisResponse example_analysis example_analysis_joined) \<and>
   instance_of FoodImageResponse (ProjectToResponse FoodImageResponse example_food_image example_food_image_joined) \<and>
   ''raw_response'' \<notin> fst ` set (ProjectToResponse FoodImageResponse example_food_image example_food_image_joined) \<and>
   ''error_message'' \<notin> fst ` set (ProjectToResponse FoodImageResponse example_food_image example_food_image_joined)"
  using response_hides_raw_fields
          [where resp = "ProjectToResponse NutritionalAnalysisResponse example_analysis example_analysis_joined"
             and resp' = "ProjectToResponse FoodImageResponse example_food_image example_food_image_joined"]
        ProjectToResponse_instance_of [of NutritionalAnalysisResponse example_analysis example_analysis_joined]
        ProjectToResponse_instance_of [of FoodImageResponse example_food_image example_food_image_joined]
  by blast

section \<open>Construction and the clock\<close>

lemma field_value_no_clock:
  assumes "x \<noteq> None \<or> default_value (finfo fd) \<noteq> DefaultFactory utcnow"
  shows "field_value fd x clk = (fst (field_value fd x clk'), clk)"
proof (cases x)
  case None
  with assms have nf: "default_value (finfo fd) \<noteq> DefaultFactory utcnow" by simp
  show ?thesis
  proof (cases "default_value (finfo fd)")
    case Undefined
    with None show ?thesis by simp
  next
    case (Default d)
    with None show ?thesis by simp
  next
    case (DefaultFactory f)
    with nf have "f = list_factory" by (cases f) auto
    with None DefaultFactory show ?thesis by simp
  qed
next
  case (Some v)
  then show ?thesis by simp
qed

lemma example_user_kwargs_valid: "valid_input User example_user_kwargs"
proof -
  have "match_anchored email_regex ''alice@example.com''"
    by (simp add: match_anchored_def email_regex_def Lit_def OneOrMore_def in_class_def)
  then show ?thesis
    by (simp add: valid_input_def User_def example_user_kwargs_def
        validate_value_def check_str_def check_int_def Field_def)
qed

lemma example_user_kwargs_timed_valid: "valid_input User example_user_kwargs_timed"
proof -
  have "match_anchored email_regex ''alice@example.com''"
    by (simp add: match_anchored_def email_regex_def Lit_def OneOrMore_def in_class_def)
  then show ?thesis
    by (simp add: valid_input_def User_def example_user_kwargs_timed_def example_user_kwargs_def
        validate_value_def check_str_def check_int_def Field_def)
qed

lemma instantiate_fields_no_clock:
  "\<forall>fd\<in>set fds. kwargs (fname fd) \<noteq> None \<or> default_value (finfo fd) \<noteq> DefaultFactory utcnow \<Longrightarrow>
   instantiate_fields fds clk kwargs = (fst (instantiate_fields fds clk' kwargs), clk)"
proof (induction fds arbitrary: clk clk')
  case Nil
  show ?case by simp
next
  case (Cons fd fds)
  from Cons.prems have h: "kwargs (fname fd) \<noteq> None \<or> default_value (finfo fd) \<noteq> DefaultFactory utcnow"
    and t: "\<forall>fd\<in>set fds. kwargs (fname fd) \<noteq> None \<or> default_value (finfo fd) \<noteq> DefaultFactory utcnow"
    by simp_all
  have f1: "field_value fd (kwargs (fname fd)) clk = (fst (field_value fd (kwargs (fname fd)) clk'), clk)"
    using field_value_no_clock [where x = "kwargs (fname fd)" and fd = fd and clk = clk and clk' = clk'] h
    by simp
  have f2: "snd (field_value fd (kwargs (fname fd)) clk') = clk'"
    using field_value_no_clock [where x = "kwargs (fname fd)" and fd = fd and clk = clk' and clk' = clk'] h
    by (metis snd_conv)
  have r: "instantiate_fields fds clk kwargs = (fst (instantiate_fields fds clk' kwargs), clk)"
    using t by (rule Cons.IH)
  show ?case using f1 f2 r by (simp add: case_prod_beta)
qed

text \<open>
  C6 (as amended): when every attribute that a class declares with
  \<open>default_factory=datetime.utcnow\<close> is among the keyword arguments (in particular when
  the class declares none, as every transfer shape does), building the object does not
  read the clock: the object is the same under any two clocks, and the clock is left as
  it was.
\<close>

theorem instantiate_deterministic_given_timestamps:
  "\<forall>fd\<in>set (fields E). kwargs (fname fd) \<noteq> None \<or> default_value (finfo fd) \<noteq> DefaultFactory utcnow \<Longrightarrow>
   instantiate E clk kwargs = (fst (instantiate E clk' kwargs), clk)"
  unfolding instantiate_def by (rule instantiate_fields_no_clock)

theorem instantiate_deterministic_given_timestamps_witness:
  "list_all (\<lambda>fd. example_user_kwargs_timed (fname fd) \<noteq> None \<or>
                  default_value (finfo fd) \<noteq> DefaultFactory utcnow) (fields User) \<and>
   valid_input User example_user_kwargs_timed \<and>
   instantiate User ticking_clock example_user_kwargs_timed =
     (fst (instantiate User late_clock example_user_kwargs_timed), ticking_clock)"
proof -
  have a: "list_all (\<lambda>fd. example_user_kwargs_timed (fname fd) \<noteq> None \<or>
                  default_value (finfo fd) \<noteq> DefaultFactory utcnow) (fields User)"
    by (simp add: User_def example_user_kwargs_timed_def example_user_kwargs_def)
  then have a': "\<forall>fd\<in>set (fields User). example_user_kwargs_timed (fname fd) \<noteq> None \<or>
                  default_value (finfo fd) \<noteq> DefaultFactory utcnow"
    by (simp add: list_all_iff)
  from instantiate_deterministic_given_timestamps
         [where E = User and kwargs = example_user_kwargs_timed and clk = ticking_clock
            and clk' = late_clock, OF a']
       a example_user_kwargs_timed_valid
  show ?thesis by blast
qed

text \<open>
  C6 as stated fails: two successive constructions of a \<open>User\<close> from the same valid
  field values, without timestamps, give records that differ, the second having read
  the clock after the first.
\<close>

theorem instantiate_twice_differs:
  "valid_input User example_user_kwargs \<and>
   fst (instantiate User (snd (instantiate User ticking_clock example_user_kwargs)) example_user_kwargs)
     \<noteq> fst (instantiate User ticking_clock example_user_kwargs)"
proof -
  have c1: "instantiate User clk example_user_kwargs =
      ([(''id'', VNone), (''username'', VStr ''alice''), (''email'', VStr ''alice@example.com''),
        (''full_name'', VNone), (''is_active'', VBool True), (''created_at'', VDatetime (clk 0)),
        (''updated_at'', VDatetime (clk 1))], \<lambda>n. clk (Suc (Suc n)))" for clk
    by (simp add: instantiate_def User_def example_user_kwargs_def Field_def)
  show ?thesis using example_user_kwargs_valid by (simp add: c1 ticking_clock_def)
qed

section \<open>Create shapes against their table models\<close>

lemma validate_value_Create:
  assumes s: "same_length_and_bound fc fe" and v: "validate_value fe v = []"
  shows "validate_value fc v = []"
proof -
  from s have a: "fannotation fc = fannotation fe"
    and ml: "max_length (finfo fc) = max_length (finfo fe)"
    and g: "gt (finfo fc) = gt (finfo fe)"
    and n: "regex (finfo fc) = None" "decimal_places (finfo fc) = None" "max_digits (finfo fc) = None"
    by (simp_all add: same_length_and_bound_def)
  from v have i: "isinstance v (fannotation fe)" and c: "check_constraints (finfo fe) v = []"
    by (simp_all add: validate_value_def split: if_splits)
  have "check_constraints (finfo fc) v = []"
  proof (cases v)
    case (VStr x)
    with c have "check_str (finfo fe) x = []" by simp
    then have "(case max_length (finfo fe) of
        Some n \<Rightarrow> if length x > n then [max_length_error n] else []
      | None \<Rightarrow> []) = []" by (simp add: check_str_def)
    with VStr ml n show ?thesis by (simp add: check_str_def)
  next
    case (VInt x)
    with c g show ?thesis by (simp add: check_int_def)
  next
    case (VDecimal x)
    with n show ?thesis by (simp add: check_decimal_def case_prod_beta)
  qed simp_all
  with i a show ?thesis by (simp add: validate_value_def)
qed

lemma carries_UserCreate:
  "list_all (\<lambda>fc. case declared User (fname fc) of
       Some fe \<Rightarrow> same_length_and_bound fc fe | None \<Rightarrow> False) (fields UserCreate)"
  by (simp add: declared_def UserCreate_def User_def same_length_and_bound_def Field_def)

lemma carries_FoodImageUpload:
  "list_all (\<lambda>fc. case declared FoodImage (fname fc) of
       Some fe \<Rightarrow> same_length_and_bound fc fe | None \<Rightarrow> False) (fields FoodImageUpload)"
  by (simp add: declared_def FoodImageUpload_def FoodImage_def same_length_and_bound_def Field_def)

lemma carries_NutritionalAnalysisCreate:
  "list_all (\<lambda>fc. case declared NutritionalAnalysis (fname fc) of
       Some fe \<Rightarrow> same_length_and_bound fc fe | None \<Rightarrow> False) (fields NutritionalAnalysisCreate)"
  by (simp add: declared_def NutritionalAnalysisCreate_def NutritionalAnalysis_def same_length_and_bound_def Field_def)

lemma carries_AllergenCreate:
  "list_all (\<lambda>fc. case declared Allergen (fname fc) of
       Some fe \<Rightarrow> same_length_and_bound fc fe | None \<Rightarrow> False) (fields AllergenCreate)"
  by (simp add: declared_def AllergenCreate_def Allergen_def same_length_and_bound_def Field_def)

lemma carries_AnalysisAllergenCreate:
  "list_all (\<lambda>fc. case declared AnalysisAllergen (fname fc) of
       Some fe \<Rightarrow> same_length_and_bound fc fe | None \<Rightarrow> False) (fields AnalysisAllergenCreate)"
  by (simp add: declared_def AnalysisAllergenCreate_def AnalysisAllergen_def same_length_and_bound_def Field_def)

lemma carries_UserAllergenCreate:
  "list_all (\<lambda>fc. case declared UserAllergen (fname fc) of
       Some fe \<Rightarrow> same_length_and_bound fc fe | None \<Rightarrow> False) (fields UserAllergenCreate)"
  by (simp add: declared_def UserAllergenCreate_def UserAllergen_def same_length_and_bound_def Field_def)

lemma carries_all:
  assumes "(C, E) \<in> set create_shapes"
  shows "list_all (\<lambda>fc. case declared E (fname fc) of
       Some fe \<Rightarrow> same_length_and_bound fc fe | None \<Rightarrow> False) (fields C)"
  using assms carries_UserCreate carries_FoodImageUpload carries_NutritionalAnalysisCreate
    carries_AllergenCreate carries_AnalysisAllergenCreate carries_UserAllergenCreate
  unfolding create_shapes_def by auto

text \<open>
  C1 (as amended): for every attribute of every Create shape, the table model declares
  an attribute of that name with the same annotation, the same default, the same
  \<open>max_length\<close> and the same \<open>gt\<close>, while the Create attribute declares no pattern and
  no decimal precision; so a Create attribute accepts every value that the table
  attribute accepts.
\<close>

theorem Create_keeps_length_and_bound_only:
  assumes "(C, E) \<in> set create_shapes" and "fc \<in> set (fields C)"
  shows "\<exists>fe. declared E (fname fc) = Some fe \<and> same_length_and_bound fc fe \<and>
              (\<forall>v. validate_value fe v = [] \<longrightarrow> validate_value fc v = [])"
proof -
  from carries_all [OF assms(1)] assms(2)
  have "case declared E (fname fc) of Some fe \<Rightarrow> same_length_and_bound fc fe | None \<Rightarrow> False"
    by (simp add: list_all_iff)
  then obtain fe where d: "declared E (fname fc) = Some fe" and s: "same_length_and_bound fc fe"
    by (cases "declared E (fname fc)") auto
  from s have "\<forall>v. validate_value fe v = [] \<longrightarrow> validate_value fc v = []"
    by (blast intro: validate_value_Create)
  with d s show ?thesis by blast
qed

theorem Create_keeps_length_and_bound_only_witness:
  "(UserCreate, User) \<in> set create_shapes \<and>
   (''email'', TStr, Field\<lparr>max_length := Some 255\<rparr>) \<in> set (fields UserCreate) \<and>
   (\<exists>fe. declared User ''email'' = Some fe \<and>
         same_length_and_bound (''email'', TStr, Field\<lparr>max_length := Some 255\<rparr>) fe)"
proof -
  have a: "(UserCreate, User) \<in> set create_shapes" by (simp add: create_shapes_def)
  have b: "(''email'', TStr, Field\<lparr>max_length := Some 255\<rparr>) \<in> set (fields UserCreate)"
    by (simp add: UserCreate_def)
  from Create_keeps_length_and_bound_only [OF a b] a b show ?thesis by auto
qed

text \<open>
  C1 as stated fails: \<open>UserCreate.email\<close> declares no pattern and accepts a string that
  \<open>User.email\<close> rejects, and \<open>NutritionalAnalysisCreate.calories\<close> declares no precision
  and accepts \<open>Decimal('1.234')\<close>, which \<open>NutritionalAnalysis.calories\<close> rejects.
\<close>

theorem Create_accepts_what_entity_rejects:
  "declared UserCreate ''email'' = Some (''email'', TStr, Field\<lparr>max_length := Some 255\<rparr>) \<and>
   accepts UserCreate ''email'' (VStr ''not-an-email'') \<and>
   \<not> accepts User ''email'' (VStr ''not-an-email'') \<and>
   declared NutritionalAnalysisCreate ''calories'' =
     Some (''calories'', TOptional TDecimal, Field\<lparr>default_value := Default VNone\<rparr>) \<and>
   accepts NutritionalAnalysisCreate ''calories'' (VDecimal (Decimal False [1, 2, 3, 4] (- 3))) \<and>
   \<not> accepts NutritionalAnalysis ''calories'' (VDecimal (Decimal False [1, 2, 3, 4] (- 3)))"
proof -
  have m: "\<not> match_anchored email_regex ''not-an-email''"
    by (simp add: match_anchored_def email_regex_def Lit_def OneOrMore_def in_class_def)
  have 0: "declared UserCreate ''email'' = Some (''email'', TStr, Field\<lparr>max_length := Some 255\<rparr>)"
    by (simp add: declared_def UserCreate_def)
  have 1: "accepts UserCreate ''email'' (VStr ''not-an-email'')"
    by (simp add: accepts_def declared_def UserCreate_def validate_value_def check_str_def Field_def)
  have 2: "\<not> accepts User ''email'' (VStr ''not-an-email'')"
    using m by (simp add: accepts_def declared_def User_def validate_value_def check_str_def Field_def)
  have 3: "declared NutritionalAnalysisCreate ''calories'' =
     Some (''calories'', TOptional TDecimal, Field\<lparr>default_value := Default VNone\<rparr>)"
    by (simp add: declared_def NutritionalAnalysisCreate_def)
  have 4: "accepts NutritionalAnalysisCreate ''calories'' (VDecimal (Decimal False [1, 2, 3, 4] (- 3)))"
    by (simp add: accepts_def declared_def NutritionalAnalysisCreate_def validate_value_def check_decimal_def
          decimal_digits_def Field_def)
  have 5: "\<not> accepts NutritionalAnalysis ''calories'' (VDecimal (Decimal False [1, 2, 3, 4] (- 3)))"
    by (simp add: accepts_def declared_def NutritionalAnalysis_def validate_value_def check_decimal_def
          decimal_digits_def Field_def)
  show ?thesis by (intro conjI 0 1 2 3 4 5)
qed

section \<open>Range of the confidence fields\<close>

text \<open>
  C3: the claim is that \<open>confidence_score\<close> and \<open>confidence\<close> accept exactly the values
  of \<open>[0.0000, 1.0000]\<close>, so that \<open>1.0001\<close> fails validation. The fields declare
  \<open>decimal_places=4, max_digits=5\<close> and no bound: \<open>Decimal('1.0000')\<close> is accepted,
  and so is \<open>Decimal('1.0001')\<close>, which has five digits, four of them after the point,
  and is greater than one. An input with \<open>food_image_id=42\<close> and that confidence score
  is valid, and the object built from it carries the score.
\<close>

theorem confidence_above_one_accepted:
  "accepts NutritionalAnalysis ''confidence_score'' (VDecimal one_point_oh) \<and>
   1 < decimal_value one_point_oh_oh_oh_one \<and>
   accepts NutritionalAnalysis ''confidence_score'' (VDecimal one_point_oh_oh_oh_one) \<and>
   accepts AnalysisAllergen ''confidence'' (VDecimal one_point_oh_oh_oh_one) \<and>
   valid_input NutritionalAnalysis
     [''food_image_id'' \<mapsto> VInt 42, ''confidence_score'' \<mapsto> VDecimal one_point_oh_oh_oh_one] \<and>
   map_of (fst (instantiate NutritionalAnalysis ticking_clock
       [''food_image_id'' \<mapsto> VInt 42, ''confidence_score'' \<mapsto> VDecimal one_point_oh_oh_oh_one]))
     ''confidence_score'' = Some (VDecimal one_point_oh_oh_oh_one)"
proof -
  let ?kw = "[''food_image_id'' \<mapsto> VInt 42, ''confidence_score'' \<mapsto> VDecimal one_point_oh_oh_oh_one]"
  have 0: "accepts NutritionalAnalysis ''confidence_score'' (VDecimal one_point_oh)"
    by (simp add: accepts_def declared_def NutritionalAnalysis_def validate_value_def check_decimal_def
          decimal_digits_def Field_def one_point_oh_def)
  have 1: "1 < decimal_value one_point_oh_oh_oh_one"
    by (simp add: decimal_value_def one_point_oh_oh_oh_one_def)
  have 2: "accepts NutritionalAnalysis ''confidence_score'' (VDecimal one_point_oh_oh_oh_one)"
    by (simp add: accepts_def declared_def NutritionalAnalysis_def validate_value_def check_decimal_def
          decimal_digits_def Field_def one_point_oh_oh_oh_one_def)
  have 3: "accepts AnalysisAllergen ''confidence'' (VDecimal one_point_oh_oh_oh_one)"
    by (simp add: accepts_def declared_def AnalysisAllergen_def validate_value_def check_decimal_def
          decimal_digits_def Field_def one_point_oh_oh_oh_one_def)
  have v: "valid_input NutritionalAnalysis ?kw"
    by (simp add: valid_input_def NutritionalAnalysis_def validate_value_def check_decimal_def
          check_int_def decimal_digits_def Field_def one_point_oh_oh_oh_one_def)
  have "''confidence_score'' \<in> fname ` set (fields NutritionalAnalysis)"
    by (simp add: NutritionalAnalysis_def)
  then have 4: "map_of (fst (instantiate NutritionalAnalysis ticking_clock ?kw)) ''confidence_score''
      = Some (VDecimal one_point_oh_oh_oh_one)"
    by (simp add: instantiate_def instantiate_fields_supplied)
  show ?thesis by (intro conjI 0 1 2 3 v 4)
qed

end
